theory Spec2Isabelle
  imports Complex_Main
begin

section \<open>Decoded JSON values and Python helpers\<close>

text \<open>
  A value as \<^verbatim>\<open>response.json()\<close> returns it, or as a \<^verbatim>\<open>dict[str, Any]\<close> field holds it.
  Numbers are the reals that the finite Python numbers denote (NaN and the infinities are
  outside the model); an object is its list of items, read with \<open>map_of\<close>.
\<close>

datatype json =
    JNull
  | JBool bool
  | JNum real
  | JStr string
  | JArr "json list"
  | JObj "(string \<times> json) list"


text \<open>Truthiness of a \<^verbatim>\<open>str | None\<close> value.\<close>

fun truthy_str :: "string option \<Rightarrow> bool" where
  "truthy_str None = False"
| "truthy_str (Some s) = (s \<noteq> [])"

text \<open>\<^verbatim>\<open>str(x)\<close>: the identity on a string; the rendering of any other value is the
  interpreter's, given as the parameter \<open>repr\<close>.\<close>

fun py_str :: "(json \<Rightarrow> string) \<Rightarrow> json \<Rightarrow> string" where
  "py_str repr (JStr s) = s"
| "py_str repr j = repr j"


text \<open>A \<^verbatim>\<open>uuid.UUID\<close> is represented by its canonical text, which is what \<^verbatim>\<open>str()\<close>
  returns; a \<^verbatim>\<open>datetime\<close> by its ISO-8601 text, which is what JSON mode emits.\<close>

datatype uuid = UUID string

datatype datetime = Datetime string

fun uuid_str :: "uuid \<Rightarrow> string" where
  "uuid_str (UUID s) = s"

fun isoformat :: "datetime \<Rightarrow> string" where
  "isoformat (Datetime s) = s"

section \<open>exceptions.py\<close>

datatype exc_class =
    ElephantasmError_class
  | AuthenticationError_class
  | NotFoundError_class
  | RateLimitError_class
  | ValidationError_class
  | ServerError_class

record api_error =
  cls :: exc_class
  message :: json
  status_code :: "int option"

definition ElephantasmError :: "json \<Rightarrow> int option \<Rightarrow> api_error" where
  "ElephantasmError m sc = \<lparr>cls = ElephantasmError_class, message = m, status_code = sc\<rparr>"

definition AuthenticationError :: "json \<Rightarrow> api_error" where
  "AuthenticationError m = (ElephantasmError m (Some 401))\<lparr>cls := AuthenticationError_class\<rparr>"

definition NotFoundError :: "json \<Rightarrow> api_error" where
  "NotFoundError m = (ElephantasmError m (Some 404))\<lparr>cls := NotFoundError_class\<rparr>"

definition RateLimitError :: "json \<Rightarrow> api_error" where
  "RateLimitError m = (ElephantasmError m (Some 429))\<lparr>cls := RateLimitError_class\<rparr>"

definition ValidationError :: "json \<Rightarrow> api_error" where
  "ValidationError m = (ElephantasmError m (Some 422))\<lparr>cls := ValidationError_class\<rparr>"

definition ServerError :: "json \<Rightarrow> api_error" where
  "ServerError m = (ElephantasmError m (Some 500))\<lparr>cls := ServerError_class\<rparr>"

text \<open>Everything a call of the client can raise: the SDK's own errors, and the built-in and
  library exceptions that pass through it.\<close>

datatype error =
    ValueError string
  | TypeError
  | JSONDecodeError
  | PydanticValidationError string
  | TransportError string
  | ApiError api_error

section \<open>types.py\<close>

datatype EventType = MESSAGE_IN | MESSAGE_OUT | TOOL_CALL | TOOL_RESULT | SYSTEM

fun EventType_value :: "EventType \<Rightarrow> string" where
  "EventType_value MESSAGE_IN = ''message.in''"
| "EventType_value MESSAGE_OUT = ''message.out''"
| "EventType_value TOOL_CALL = ''tool.call''"
| "EventType_value TOOL_RESULT = ''tool.result''"
| "EventType_value SYSTEM = ''system''"

record Event =
  ev_id :: uuid
  ev_anima_id :: uuid
  ev_event_type :: string
  ev_role :: "string option"
  ev_author :: "string option"
  ev_summary :: "string option"
  ev_content :: string
  ev_occurred_at :: "datetime option"
  ev_session_id :: "string option"
  ev_meta :: "(string \<times> json) list"
  ev_source_uri :: "string option"
  ev_dedupe_key :: "string option"
  ev_importance_score :: "real option"
  ev_created_at :: datetime
  ev_updated_at :: datetime

record EventCreate =
  ec_anima_id :: uuid
  ec_event_type :: string
  ec_content :: string
  ec_role :: "string option"
  ec_author :: "string option"
  ec_summary :: "string option"
  ec_occurred_at :: "datetime option"
  ec_session_id :: "string option"
  ec_meta :: "(string \<times> json) list"
  ec_source_uri :: "string option"
  ec_dedupe_key :: "string option"
  ec_importance_score :: "real option"

text \<open>
  Construction of an \<open>EventCreate\<close> from keyword arguments of the annotated types. The only
  constraint the class declares is \<^verbatim>\<open>Field(default=None, ge=0.0, le=1.0)\<close> on
  \<open>importance_score\<close>; \<open>event_type\<close> is a plain \<^verbatim>\<open>str\<close> field with no validator.
\<close>

definition EventCreate_init :: "EventCreate \<Rightarrow> error + EventCreate" where
  "EventCreate_init d =
     (case ec_importance_score d of
        None \<Rightarrow> Inr d
      | Some s \<Rightarrow>
          if 0 \<le> s \<and> s \<le> 1 then Inr d
          else Inl (PydanticValidationError ''importance_score''))"

definition opt_field :: "string \<Rightarrow> ('a \<Rightarrow> json) \<Rightarrow> 'a option \<Rightarrow> (string \<times> json) list" where
  "opt_field k f v = (case v of None \<Rightarrow> [] | Some x \<Rightarrow> [(k, f x)])"

text \<open>\<^verbatim>\<open>data.model_dump(mode="json", exclude_none=True)\<close>: the fields in declaration order,
  those that are \<^verbatim>\<open>None\<close> left out.\<close>

definition model_dump :: "EventCreate \<Rightarrow> (string \<times> json) list" where
  "model_dump d =
     [(''anima_id'', JStr (uuid_str (ec_anima_id d))),
      (''event_type'', JStr (ec_event_type d)),
      (''content'', JStr (ec_content d))]
     @ opt_field ''role'' JStr (ec_role d)
     @ opt_field ''author'' JStr (ec_author d)
     @ opt_field ''summary'' JStr (ec_summary d)
     @ opt_field ''occurred_at'' (\<lambda>t. JStr (isoformat t)) (ec_occurred_at d)
     @ opt_field ''session_id'' JStr (ec_session_id d)
     @ [(''meta'', JObj (ec_meta d))]
     @ opt_field ''source_uri'' JStr (ec_source_uri d)
     @ opt_field ''dedupe_key'' JStr (ec_dedupe_key d)
     @ opt_field ''importance_score'' JNum (ec_importance_score d)"



record MemoryPack =
  mp_id :: uuid
  mp_anima_id :: uuid
  mp_query :: "string option"
  mp_preset_name :: "string option"
  session_memory_count :: int
  knowledge_count :: int
  long_term_memory_count :: int
  has_identity :: bool
  token_count :: int
  max_tokens :: int
  mp_content :: "(string \<times> json) list"
  compiled_at :: datetime
  created_at :: datetime

text \<open>
  What the interpreter and the libraries supply: the rendering \<^verbatim>\<open>str()\<close> gives a value that
  is not a string; \<^verbatim>\<open>uuid.UUID(text)\<close>, with \<open>Inl\<close> the message of the \<^verbatim>\<open>ValueError\<close> it
  raises; pydantic's validation of a decoded input for a \<^verbatim>\<open>UUID\<close> field, and its conversion
  to \<^verbatim>\<open>float\<close> of an input that is not a number (\<open>None\<close> when the input is refused); and
  pydantic's validation of a decoded object against the \<open>Event\<close> and \<open>MemoryPack\<close> schemas.
\<close>

record runtime =
  py_repr :: "json \<Rightarrow> string"
  uuid_of :: "string \<Rightarrow> string + uuid"
  uuid_validate :: "json \<Rightarrow> uuid option"
  lax_float :: "json \<Rightarrow> real option"
  Event_validate :: "(string \<times> json) list \<Rightarrow> error + Event"
  MemoryPack_validate :: "(string \<times> json) list \<Rightarrow> error + MemoryPack"

text \<open>\<^verbatim>\<open>Model(**result)\<close>: unpacking anything but a mapping is a \<^verbatim>\<open>TypeError\<close>.\<close>

fun model_init :: "((string \<times> json) list \<Rightarrow> error + 'a) \<Rightarrow> json \<Rightarrow> error + 'a" where
  "model_init v (JObj kvs) = v kvs"
| "model_init v j = Inl TypeError"

subsection \<open>Field validators of the nested views\<close>


text \<open>A required field: \<open>None\<close> stands for the validation error.\<close>

definition required :: "(json \<Rightarrow> 'a option) \<Rightarrow> json option \<Rightarrow> 'a option" where
  "required f v = (case v of None \<Rightarrow> None | Some j \<Rightarrow> f j)"








subsection \<open>The accessors of \<open>MemoryPack\<close>\<close>




section \<open>client.py\<close>

record response =
  r_status_code :: int
  r_text :: string
  r_json :: "json option"

text \<open>\<open>r_json\<close> is what \<^verbatim>\<open>response.json()\<close> returns, \<open>None\<close> when it raises because the body
  is not JSON. \<^verbatim>\<open>response.is_success\<close> is httpx's test for a 2xx status.\<close>

definition is_success :: "response \<Rightarrow> bool" where
  "is_success r = (200 \<le> r_status_code r \<and> r_status_code r \<le> 299)"

record request =
  req_method :: string
  req_url :: string
  req_params :: "(string \<times> string) list"
  req_json :: "(string \<times> json) list option"

record client =
  api_key :: string
  anima_id :: "string option"
  endpoint :: string
  timeout :: int
  http_client :: "request \<Rightarrow> error + response"

text \<open>The \<^verbatim>\<open>try\<close> block of \<open>_handle_response\<close>: \<^verbatim>\<open>response.json().get("detail", response.text)\<close>,
  and \<^verbatim>\<open>response.text\<close> when that raises (no JSON, or JSON that is not an object).\<close>

definition error_detail :: "response \<Rightarrow> json" where
  "error_detail r =
     (case r_json r of
        Some (JObj kvs) \<Rightarrow>
          (case map_of kvs ''detail'' of Some d \<Rightarrow> d | None \<Rightarrow> JStr (r_text r))
      | _ \<Rightarrow> JStr (r_text r))"

definition handle_response :: "runtime \<Rightarrow> response \<Rightarrow> error + json" where
  "handle_response rt r =
     (if is_success r then
        (case r_json r of None \<Rightarrow> Inl JSONDecodeError | Some j \<Rightarrow> Inr j)
      else
        (let detail = error_detail r; status = r_status_code r
         in if status = 401 then Inl (ApiError (AuthenticationError detail))
            else if status = 404 then Inl (ApiError (NotFoundError detail))
            else if status = 422 then
              Inl (ApiError (ValidationError (JStr (py_str (py_repr rt) detail))))
            else if status = 429 then Inl (ApiError (RateLimitError detail))
            else if status \<ge> 500 then Inl (ApiError (ServerError detail))
            else Inl (ApiError (ElephantasmError detail (Some status)))))"

text \<open>The state the calls thread is the list of requests handed to the transport so far;
  a transport call may itself raise.\<close>

definition send :: "client \<Rightarrow> request \<Rightarrow> request list \<Rightarrow> (error + response) \<times> request list" where
  "send c req sent = (http_client c req, sent @ [req])"

datatype anima_arg = AnimaStr string | AnimaUUID uuid

fun anima_truthy :: "anima_arg option \<Rightarrow> bool" where
  "anima_truthy None = False"
| "anima_truthy (Some (AnimaStr s)) = (s \<noteq> [])"
| "anima_truthy (Some (AnimaUUID u)) = True"

fun anima_str :: "anima_arg \<Rightarrow> string" where
  "anima_str (AnimaStr s) = s"
| "anima_str (AnimaUUID u) = uuid_str u"

definition anima_id_required :: error where
  "anima_id_required =
     ValueError ''anima_id required. Provide parameter or set default in client.''"

text \<open>The local \<open>aid\<close> of \<open>inject\<close>: \<^verbatim>\<open>str(anima_id) if anima_id else self.anima_id\<close>.\<close>

definition inject_aid :: "client \<Rightarrow> anima_arg option \<Rightarrow> string option" where
  "inject_aid c a =
     (if anima_truthy a then map_option anima_str a else anima_id c)"

text \<open>The local \<open>params\<close> of \<open>inject\<close>.\<close>

definition inject_params :: "string option \<Rightarrow> string option \<Rightarrow> (string \<times> string) list" where
  "inject_params query preset =
     (if truthy_str query then [(''query'', the query)] else [])
     @ (if truthy_str preset then [(''preset'', the preset)] else [])"

definition inject_request :: "string \<Rightarrow> string option \<Rightarrow> string option \<Rightarrow> request" where
  "inject_request aid query preset =
     \<lparr>req_method = ''GET'',
      req_url = ''/animas/'' @ aid @ ''/memory-packs/latest'',
      req_params = inject_params query preset,
      req_json = None\<rparr>"

definition inject ::
  "runtime \<Rightarrow> client \<Rightarrow> anima_arg option \<Rightarrow> string option \<Rightarrow> string option \<Rightarrow>
   request list \<Rightarrow> (error + MemoryPack option) \<times> request list" where
  "inject rt c a query preset sent =
     (let aid = inject_aid c a
      in if \<not> truthy_str aid then (Inl anima_id_required, sent)
         else
           (case send c (inject_request (the aid) query preset) sent of
              (Inl e, sent') \<Rightarrow> (Inl e, sent')
            | (Inr resp, sent') \<Rightarrow>
                (case handle_response rt resp of
                   Inl e \<Rightarrow> (Inl e, sent')
                 | Inr result \<Rightarrow>
                     if result = JNull then (Inr None, sent')
                     else
                       (case model_init (MemoryPack_validate rt) result of
                          Inl e \<Rightarrow> (Inl e, sent')
                        | Inr p \<Rightarrow> (Inr (Some p), sent')))))"

datatype event_type_arg = EventTypeStr string | EventTypeEnum EventType

text \<open>The local \<open>event_type_str\<close> of \<open>extract\<close>:
  \<^verbatim>\<open>event_type.value if isinstance(event_type, EventType) else event_type\<close>.\<close>

fun event_type_str :: "event_type_arg \<Rightarrow> string" where
  "event_type_str (EventTypeEnum e) = EventType_value e"
| "event_type_str (EventTypeStr s) = s"

text \<open>The local \<open>aid\<close> of \<open>extract\<close>: \<^verbatim>\<open>anima_id if anima_id else self.anima_id\<close>.\<close>

definition extract_aid :: "client \<Rightarrow> anima_arg option \<Rightarrow> anima_arg option" where
  "extract_aid c a =
     (if anima_truthy a then a else map_option AnimaStr (anima_id c))"

record extract_args =
  event_type :: event_type_arg
  content :: string
  session_id :: "string option"
  role :: "string option"
  author :: "string option"
  occurred_at :: "datetime option"
  meta :: "(string \<times> json) list option"
  importance_score :: "real option"

text \<open>The keyword arguments \<open>extract\<close> passes to \<open>EventCreate\<close>; \<open>summary\<close>,
  \<open>source_uri\<close> and \<open>dedupe_key\<close> keep their default.\<close>

definition extract_data :: "uuid \<Rightarrow> extract_args \<Rightarrow> EventCreate" where
  "extract_data u x =
     \<lparr>ec_anima_id = u,
      ec_event_type = event_type_str (event_type x),
      ec_content = content x,
      ec_role = role x,
      ec_author = author x,
      ec_summary = None,
      ec_occurred_at = occurred_at x,
      ec_session_id = session_id x,
      ec_meta = (case meta x of None \<Rightarrow> [] | Some m \<Rightarrow> m),
      ec_source_uri = None,
      ec_dedupe_key = None,
      ec_importance_score = importance_score x\<rparr>"

definition extract_request :: "EventCreate \<Rightarrow> request" where
  "extract_request d =
     \<lparr>req_method = ''POST'', req_url = ''/events'', req_params = [],
      req_json = Some (model_dump d)\<rparr>"

text \<open>The method \<open>extract\<close> (the name alone is reserved in Isabelle).\<close>

definition extract_event ::
  "runtime \<Rightarrow> client \<Rightarrow> extract_args \<Rightarrow> anima_arg option \<Rightarrow>
   request list \<Rightarrow> (error + Event) \<times> request list" where
  "extract_event rt c x a sent =
     (let aid = extract_aid c a
      in if \<not> anima_truthy aid then (Inl anima_id_required, sent)
         else
           (case uuid_of rt (anima_str (the aid)) of
              Inl msg \<Rightarrow> (Inl (ValueError msg), sent)
            | Inr u \<Rightarrow>
                (case EventCreate_init (extract_data u x) of
                   Inl e \<Rightarrow> (Inl e, sent)
                 | Inr d \<Rightarrow>
                     (case send c (extract_request d) sent of
                        (Inl e, sent') \<Rightarrow> (Inl e, sent')
                      | (Inr resp, sent') \<Rightarrow>
                          (case handle_response rt resp of
                             Inl e \<Rightarrow> (Inl e, sent')
                           | Inr result \<Rightarrow>
                               (model_init (Event_validate rt) result, sent'))))))"

section \<open>Fixtures (tests/conftest.py)\<close>

definition test_anima_id :: string where
  "test_anima_id = ''6f1c2d3e-4a5b-4c6d-8e7f-0123456789ab''"

definition mock_event :: Event where
  "mock_event =
     \<lparr>ev_id = UUID ''0b0e7c1a-9d2f-4e3b-a4c5-d6e7f8091a2b'',
      ev_anima_id = UUID test_anima_id,
      ev_event_type = ''message.in'',
      ev_role = Some ''user'',
      ev_author = Some ''test-user'',
      ev_summary = None,
      ev_content = ''Hello, world!'',
      ev_occurred_at = Some (Datetime ''2025-01-01T00:00:00+00:00''),
      ev_session_id = Some ''session-123'',
      ev_meta = [],
      ev_source_uri = None,
      ev_dedupe_key = None,
      ev_importance_score = None,
      ev_created_at = Datetime ''2025-01-01T00:00:00+00:00'',
      ev_updated_at = Datetime ''2025-01-01T00:00:00+00:00''\<rparr>"

text \<open>The body of the fixture's event response, as decoded.\<close>

definition mock_event_json :: "(string \<times> json) list" where
  "mock_event_json =
     [(''id'', JStr ''0b0e7c1a-9d2f-4e3b-a4c5-d6e7f8091a2b''),
      (''anima_id'', JStr test_anima_id),
      (''event_type'', JStr ''message.in''),
      (''role'', JStr ''user''),
      (''author'', JStr ''test-user''),
      (''summary'', JNull),
      (''content'', JStr ''Hello, world!''),
      (''occurred_at'', JStr ''2025-01-01T00:00:00+00:00''),
      (''session_id'', JStr ''session-123''),
      (''meta'', JObj []),
      (''source_uri'', JNull),
      (''dedupe_key'', JNull),
      (''importance_score'', JNull),
      (''created_at'', JStr ''2025-01-01T00:00:00+00:00''),
      (''updated_at'', JStr ''2025-01-01T00:00:00+00:00'')]"



text \<open>The pack of the fixture, with the given \<open>content\<close>.\<close>

definition mock_memory_pack :: "(string \<times> json) list \<Rightarrow> MemoryPack" where
  "mock_memory_pack c =
     \<lparr>mp_id = UUID ''9a8b7c6d-5e4f-4a3b-9c2d-1e0f11223344'',
      mp_anima_id = UUID test_anima_id,
      mp_query = None,
      mp_preset_name = Some ''conversational'',
      session_memory_count = 2,
      knowledge_count = 3,
      long_term_memory_count = 1,
      has_identity = True,
      token_count = 1500,
      max_tokens = 4000,
      mp_content = c,
      compiled_at = Datetime ''2025-01-01T00:00:00+00:00'',
      created_at = Datetime ''2025-01-01T00:00:00+00:00''\<rparr>"


text \<open>A runtime for the tests: a text of 36 characters is taken for a well-formed UUID, no
  input other than a number converts to \<^verbatim>\<open>float\<close>, the \<open>Event\<close> schema accepts the
  fixture's body, and the \<open>MemoryPack\<close> schema accepts an object that has an \<open>id\<close>, giving
  the fixture's pack with the object's \<open>content\<close>.\<close>

definition test_runtime :: runtime where
  "test_runtime =
     \<lparr>py_repr = (\<lambda>j. ''<repr>''),
      uuid_of = (\<lambda>s. if length s = 36 then Inr (UUID s)
                     else Inl ''badly formed hexadecimal UUID string''),
      uuid_validate = (\<lambda>j. case j of
                              JStr s \<Rightarrow> if length s = 36 then Some (UUID s) else None
                            | _ \<Rightarrow> None),
      lax_float = (\<lambda>j. None),
      Event_validate =
        (\<lambda>kvs. if kvs = mock_event_json then Inr mock_event
               else Inl (PydanticValidationError ''id'')),
      MemoryPack_validate =
        (\<lambda>kvs. if map_of kvs ''id'' = None then Inl (PydanticValidationError ''id'')
               else Inr (mock_memory_pack
                           (case map_of kvs ''content'' of Some (JObj c) \<Rightarrow> c | _ \<Rightarrow> [])))\<rparr>"

text \<open>\<open>mock_api\<close>: a transport that answers every request with the given response.\<close>

definition mock_api :: "response \<Rightarrow> request \<Rightarrow> error + response" where
  "mock_api r req = Inr r"

definition test_client :: "string option \<Rightarrow> (request \<Rightarrow> error + response) \<Rightarrow> client" where
  "test_client aid tr =
     \<lparr>api_key = ''sk_test_abc123def456'',
      anima_id = aid,
      endpoint = ''https://test.api.elephantasm.com'',
      timeout = 30,
      http_client = tr\<rparr>"

definition json_response :: "int \<Rightarrow> string \<Rightarrow> json \<Rightarrow> response" where
  "json_response st body j = \<lparr>r_status_code = st, r_text = body, r_json = Some j\<rparr>"

text \<open>\<^verbatim>\<open>Response(201, json=mock_event)\<close>.\<close>

definition created :: response where
  "created = json_response 201 ''(event)'' (JObj mock_event_json)"

text \<open>\<open>_make\<close> of tests/test_event_type_validation.py.\<close>

definition make_EventCreate :: "string \<Rightarrow> EventCreate" where
  "make_EventCreate et =
     \<lparr>ec_anima_id = UUID test_anima_id,
      ec_event_type = et,
      ec_content = ''test'',
      ec_role = None,
      ec_author = None,
      ec_summary = None,
      ec_occurred_at = None,
      ec_session_id = None,
      ec_meta = [],
      ec_source_uri = None,
      ec_dedupe_key = None,
      ec_importance_score = None\<rparr>"

text \<open>\<^verbatim>\<open>client.extract(event_type, "Hello!")\<close> with every optional argument left out, and with
  an importance score.\<close>

definition hello :: "event_type_arg \<Rightarrow> real option \<Rightarrow> extract_args" where
  "hello et sc =
     \<lparr>event_type = et, content = ''Hello!'', session_id = None, role = None, author = None,
      occurred_at = None, meta = None, importance_score = sc\<rparr>"

section \<open>Response handling\<close>

lemmas exc_defs = ElephantasmError_def AuthenticationError_def NotFoundError_def
  RateLimitError_def ValidationError_def ServerError_def

lemma handle_response_failure:
  assumes "\<not> is_success r"
  shows "handle_response rt r =
         Inl (ApiError
           (if r_status_code r = 401 then AuthenticationError (error_detail r)
            else if r_status_code r = 404 then NotFoundError (error_detail r)
            else if r_status_code r = 422
              then ValidationError (JStr (py_str (py_repr rt) (error_detail r)))
            else if r_status_code r = 429 then RateLimitError (error_detail r)
            else if 500 \<le> r_status_code r then ServerError (error_detail r)
            else ElephantasmError (error_detail r) (Some (r_status_code r))))"
  using assms by (simp add: handle_response_def Let_def)

lemma error_detail_field:
  "r_json r = Some (JObj kvs) \<Longrightarrow> map_of kvs ''detail'' = Some d \<Longrightarrow> error_detail r = d"
  by (simp add: error_detail_def)

lemma error_detail_no_json: "r_json r = None \<Longrightarrow> error_detail r = JStr (r_text r)"
  by (simp add: error_detail_def)

lemma error_detail_status [simp]:
  "error_detail (r\<lparr>r_status_code := st\<rparr>) = error_detail r"
  by (simp add: error_detail_def split: option.splits json.splits)

text \<open>
  C5. A response that is not 2xx never returns a value: it raises the error class that its
  status code selects (401, 404, 422, 429, at least 500, and the root class with the
  observed status for anything else). The message is the \<open>detail\<close> field of the JSON body
  when the body is an object that has one, and the raw text when the body is not JSON; the
  422 branch passes it through \<^verbatim>\<open>str()\<close>, which leaves a string as it is.
\<close>

theorem non_2xx_raises_typed_error:
  assumes "\<not> is_success r"
  shows "(\<exists>e. handle_response rt r = Inl (ApiError e)
            \<and> (cls e, status_code e) =
                (if r_status_code r = 401 then (AuthenticationError_class, Some 401)
                 else if r_status_code r = 404 then (NotFoundError_class, Some 404)
                 else if r_status_code r = 422 then (ValidationError_class, Some 422)
                 else if r_status_code r = 429 then (RateLimitError_class, Some 429)
                 else if 500 \<le> r_status_code r then (ServerError_class, Some 500)
                 else (ElephantasmError_class, Some (r_status_code r)))
            \<and> message e =
                (if r_status_code r = 422 then JStr (py_str (py_repr rt) (error_detail r))
                 else error_detail r))
         \<and> (\<forall>v. handle_response rt r \<noteq> Inr v)
         \<and> (\<forall>kvs d. r_json r = Some (JObj kvs) \<and> map_of kvs ''detail'' = Some d
                \<longrightarrow> error_detail r = d)
         \<and> (r_json r = None \<longrightarrow> error_detail r = JStr (r_text r))
         \<and> (\<forall>s. py_str (py_repr rt) (JStr s) = s)"
proof -
  note h = handle_response_failure [OF assms, of rt]
  have "\<exists>e. handle_response rt r = Inl (ApiError e)
            \<and> (cls e, status_code e) =
                (if r_status_code r = 401 then (AuthenticationError_class, Some 401)
                 else if r_status_code r = 404 then (NotFoundError_class, Some 404)
                 else if r_status_code r = 422 then (ValidationError_class, Some 422)
                 else if r_status_code r = 429 then (RateLimitError_class, Some 429)
                 else if 500 \<le> r_status_code r then (ServerError_class, Some 500)
                 else (ElephantasmError_class, Some (r_status_code r)))
            \<and> message e =
                (if r_status_code r = 422 then JStr (py_str (py_repr rt) (error_detail r))
                 else error_detail r)"
    unfolding h by (simp add: exc_defs)
  moreover have "\<forall>v. handle_response rt r \<noteq> Inr v"
    unfolding h by simp
  moreover have "\<forall>kvs d. r_json r = Some (JObj kvs) \<and> map_of kvs ''detail'' = Some d
                \<longrightarrow> error_detail r = d"
    by (simp add: error_detail_field)
  moreover have "r_json r = None \<longrightarrow> error_detail r = JStr (r_text r)"
    by (simp add: error_detail_no_json)
  ultimately show ?thesis by simp
qed

theorem non_2xx_raises_typed_error_witness:
  "\<not> is_success (json_response 404 ''(body)'' (JObj [(''detail'', JStr ''Anima not found'')]))
   \<and> handle_response test_runtime
        (json_response 404 ''(body)'' (JObj [(''detail'', JStr ''Anima not found'')]))
      = Inl (ApiError \<lparr>cls = NotFoundError_class, message = JStr ''Anima not found'',
                        status_code = Some 404\<rparr>)"
proof -
  have h: "\<not> is_success (json_response 404 ''(body)''
                      (JObj [(''detail'', JStr ''Anima not found'')]))"
    by (simp add: is_success_def json_response_def)
  show ?thesis
    using h non_2xx_raises_typed_error [OF h, of test_runtime]
    by (auto simp: json_response_def error_detail_def)
qed

text \<open>
  C9. A response with status 500 or more raises a \<open>ServerError\<close> whose \<open>status_code\<close> is
  500 whatever the status was: responses that differ only in a status of at least 500
  raise the same error, so the error does not tell 502 from 503.
\<close>

theorem server_error_status_is_500:
  assumes "500 \<le> r_status_code r"
  shows "handle_response rt r =
           Inl (ApiError \<lparr>cls = ServerError_class, message = error_detail r,
                           status_code = Some 500\<rparr>)
         \<and> (\<forall>st. 500 \<le> st \<longrightarrow>
               handle_response rt (r\<lparr>r_status_code := st\<rparr>) = handle_response rt r)"
proof -
  have "\<And>st. 500 \<le> st \<Longrightarrow>
          handle_response rt (r\<lparr>r_status_code := st\<rparr>) =
            Inl (ApiError \<lparr>cls = ServerError_class, message = error_detail r,
                           status_code = Some 500\<rparr>)"
    by (simp add: handle_response_def is_success_def Let_def exc_defs)
  from this [of "r_status_code r"] this assms show ?thesis by simp
qed

theorem server_error_status_is_500_witness:
  "500 \<le> r_status_code (json_response 502 ''Bad Gateway'' (JStr ''Bad Gateway''))
   \<and> handle_response test_runtime (json_response 502 ''Bad Gateway'' (JStr ''Bad Gateway''))
     = Inl (ApiError \<lparr>cls = ServerError_class, message = JStr ''Bad Gateway'',
                       status_code = Some 500\<rparr>)
   \<and> handle_response test_runtime (json_response 503 ''Bad Gateway'' (JStr ''Bad Gateway''))
     = handle_response test_runtime (json_response 502 ''Bad Gateway'' (JStr ''Bad Gateway''))"
proof -
  have h: "500 \<le> r_status_code (json_response 502 ''Bad Gateway'' (JStr ''Bad Gateway''))"
    by (simp add: json_response_def)
  show ?thesis
    using h server_error_status_is_500 [OF h, of test_runtime]
    by (auto simp: json_response_def error_detail_def dest: spec [of _ 503])
qed

section \<open>inject\<close>

lemma inject_no_anima_id:
  "\<not> truthy_str (inject_aid c a) \<Longrightarrow>
     inject rt c a query preset sent = (Inl anima_id_required, sent)"
  by (simp add: inject_def)

lemma inject_sent:
  assumes "truthy_str (inject_aid c a)"
    and "http_client c (inject_request (the (inject_aid c a)) query preset) = Inr resp"
  shows "inject rt c a query preset sent =
           ((case handle_response rt resp of
               Inl e \<Rightarrow> Inl e
             | Inr result \<Rightarrow>
                 if result = JNull then Inr None
                 else (case model_init (MemoryPack_validate rt) result of
                         Inl e \<Rightarrow> Inl e
                       | Inr p \<Rightarrow> Inr (Some p))),
            sent @ [inject_request (the (inject_aid c a)) query preset])"
  using assms by (simp add: inject_def send_def split: sum.splits)

lemma inject_requests:
  "snd (inject rt c a query preset sent) =
     (if truthy_str (inject_aid c a)
      then sent @ [inject_request (the (inject_aid c a)) query preset] else sent)"
  by (simp add: inject_def send_def Let_def split: sum.splits)

lemma handle_response_success:
  "is_success r \<Longrightarrow> r_json r = Some j \<Longrightarrow> handle_response rt r = Inr j"
  by (simp add: handle_response_def)

lemma not_success_404: "r_status_code r = 404 \<Longrightarrow> \<not> is_success r"
  by (simp add: is_success_def)

text \<open>
  C4. When the anima id resolves and the transport answers, a 2xx response whose body is
  the JSON literal \<open>null\<close> makes \<open>inject\<close> return \<open>None\<close>: no error, and no pack decoded
  (a body that is an object, even the empty one, goes to the \<open>MemoryPack\<close> schema instead).
  A 404 response raises \<open>NotFoundError\<close>.
\<close>

theorem inject_null_body_is_absent:
  assumes "truthy_str (inject_aid c a)"
    and "http_client c (inject_request (the (inject_aid c a)) query preset) = Inr resp"
  shows "(is_success resp \<and> r_json resp = Some JNull \<longrightarrow>
            fst (inject rt c a query preset sent) = Inr None)
         \<and> (\<forall>kvs. is_success resp \<and> r_json resp = Some (JObj kvs) \<longrightarrow>
               fst (inject rt c a query preset sent) =
                 (case MemoryPack_validate rt kvs of
                    Inl e \<Rightarrow> Inl e | Inr p \<Rightarrow> Inr (Some p)))
         \<and> (r_status_code resp = 404 \<longrightarrow>
               fst (inject rt c a query preset sent) =
                 Inl (ApiError \<lparr>cls = NotFoundError_class, message = error_detail resp,
                                 status_code = Some 404\<rparr>))"
proof -
  note s = inject_sent [OF assms, of rt sent]
  have "is_success resp \<and> r_json resp = Some JNull \<longrightarrow>
          fst (inject rt c a query preset sent) = Inr None"
    unfolding s by (simp add: handle_response_success)
  moreover have "\<forall>kvs. is_success resp \<and> r_json resp = Some (JObj kvs) \<longrightarrow>
               fst (inject rt c a query preset sent) =
                 (case MemoryPack_validate rt kvs of
                    Inl e \<Rightarrow> Inl e | Inr p \<Rightarrow> Inr (Some p))"
    unfolding s by (simp add: handle_response_success)
  moreover have "r_status_code resp = 404 \<longrightarrow>
               fst (inject rt c a query preset sent) =
                 Inl (ApiError \<lparr>cls = NotFoundError_class, message = error_detail resp,
                                 status_code = Some 404\<rparr>)"
    unfolding s by (simp add: handle_response_failure not_success_404 exc_defs)
  ultimately show ?thesis by simp
qed

theorem inject_null_body_is_absent_witness:
  "truthy_str (inject_aid (test_client (Some test_anima_id)
                 (mock_api (json_response 200 ''null'' JNull))) None)
   \<and> http_client (test_client (Some test_anima_id) (mock_api (json_response 200 ''null'' JNull)))
       (inject_request test_anima_id None None) = Inr (json_response 200 ''null'' JNull)
   \<and> is_success (json_response 200 ''null'' JNull)
   \<and> r_json (json_response 200 ''null'' JNull) = Some JNull
   \<and> fst (inject test_runtime
            (test_client (Some test_anima_id) (mock_api (json_response 200 ''null'' JNull)))
            None None None []) = Inr None
   \<and> r_status_code (json_response 404 ''(body)'' (JObj [(''detail'', JStr ''Anima not found'')]))
       = 404
   \<and> fst (inject test_runtime
            (test_client (Some test_anima_id)
               (mock_api (json_response 404 ''(body)''
                            (JObj [(''detail'', JStr ''Anima not found'')]))))
            None None None [])
       = Inl (ApiError \<lparr>cls = NotFoundError_class, message = JStr ''Anima not found'',
                         status_code = Some 404\<rparr>)"
proof -
  let ?c = "test_client (Some test_anima_id) (mock_api (json_response 200 ''null'' JNull))"
  let ?r = "json_response 404 ''(body)'' (JObj [(''detail'', JStr ''Anima not found'')])"
  let ?d = "test_client (Some test_anima_id) (mock_api ?r)"
  have aid': "inject_aid ?d None = Some test_anima_id"
    by (simp add: inject_aid_def test_client_def)
  have g1: "truthy_str (inject_aid ?d None)"
    unfolding aid' by (simp add: test_anima_id_def)
  have g2: "http_client ?d (inject_request (the (inject_aid ?d None)) None None) = Inr ?r"
    by (simp add: test_client_def mock_api_def)
  have g3: "r_status_code ?r = 404" "error_detail ?r = JStr ''Anima not found''"
    by (simp_all add: json_response_def error_detail_def)
  have nf: "fst (inject test_runtime ?d None None None [])
              = Inl (ApiError \<lparr>cls = NotFoundError_class, message = JStr ''Anima not found'',
                                status_code = Some 404\<rparr>)"
    using g3 inject_null_body_is_absent [OF g1 g2, of test_runtime "[]"]
    by simp
  have aid: "inject_aid ?c None = Some test_anima_id"
    by (simp add: inject_aid_def test_client_def)
  have h1: "truthy_str (inject_aid ?c None)"
    unfolding aid by (simp add: test_anima_id_def)
  have h2: "http_client ?c (inject_request (the (inject_aid ?c None)) None None)
              = Inr (json_response 200 ''null'' JNull)"
    by (simp add: test_client_def mock_api_def)
  have h3: "is_success (json_response 200 ''null'' JNull)
            \<and> r_json (json_response 200 ''null'' JNull) = Some JNull"
    by (simp add: is_success_def json_response_def)
  show ?thesis
    using h1 h2 h3 g3(1) nf inject_null_body_is_absent [OF h1 h2, of test_runtime "[]"]
    by (simp add: aid)
qed

text \<open>
  C10. \<open>inject\<close> treats an empty string as an absent argument: with \<open>anima_id=""\<close> it does
  exactly what it does with no \<open>anima_id\<close> (it raises the configuration error when the
  client has no default, and otherwise sends the request for the default id), and an empty
  \<open>query\<close> or \<open>preset\<close> gives the parameters of an absent one, with no such key in them.
\<close>

theorem inject_empty_string_is_absent:
  "inject rt c (Some (AnimaStr '''')) query preset sent = inject rt c None query preset sent
   \<and> (\<not> truthy_str (anima_id c) \<longrightarrow>
        inject rt c (Some (AnimaStr '''')) query preset sent = (Inl anima_id_required, sent))
   \<and> (truthy_str (anima_id c) \<longrightarrow>
        snd (inject rt c (Some (AnimaStr '''')) query preset sent) =
          sent @ [inject_request (the (anima_id c)) query preset])
   \<and> inject rt c a (Some '''') preset sent = inject rt c a None preset sent
   \<and> inject rt c a query (Some '''') sent = inject rt c a query None sent
   \<and> req_params (inject_request aid (Some '''') preset) = req_params (inject_request aid None preset)
   \<and> req_params (inject_request aid query (Some '''')) = req_params (inject_request aid query None)
   \<and> ''query'' \<notin> fst ` set (req_params (inject_request aid (Some '''') preset))
   \<and> ''preset'' \<notin> fst ` set (req_params (inject_request aid query (Some '''')))"
proof -
  have aid: "inject_aid c (Some (AnimaStr '''')) = anima_id c" "inject_aid c None = anima_id c"
    by (simp_all add: inject_aid_def)
  have p: "inject_params (Some '''') preset = inject_params None preset"
    "inject_params query (Some '''') = inject_params query None"
    "''query'' \<notin> fst ` set (inject_params None preset)"
    "''preset'' \<notin> fst ` set (inject_params query None)"
    by (auto simp: inject_params_def)
  have r: "\<And>i. inject_request i (Some '''') preset = inject_request i None preset"
    "\<And>i. inject_request i query (Some '''') = inject_request i query None"
    by (simp_all add: inject_request_def p)
  have "inject rt c (Some (AnimaStr '''')) query preset sent = inject rt c None query preset sent"
    by (simp add: inject_def aid)
  moreover have "\<not> truthy_str (anima_id c) \<longrightarrow>
        inject rt c (Some (AnimaStr '''')) query preset sent = (Inl anima_id_required, sent)"
    by (simp add: inject_no_anima_id aid)
  moreover have "truthy_str (anima_id c) \<longrightarrow>
        snd (inject rt c (Some (AnimaStr '''')) query preset sent) =
          sent @ [inject_request (the (anima_id c)) query preset]"
    by (simp add: inject_requests aid)
  moreover have "inject rt c a (Some '''') preset sent = inject rt c a None preset sent"
    unfolding inject_def r by (rule refl)
  moreover have "inject rt c a query (Some '''') sent = inject rt c a query None sent"
    unfolding inject_def r by (rule refl)
  ultimately show ?thesis
    using p by (simp add: inject_request_def)
qed

theorem inject_empty_string_is_absent_witness:
  "truthy_str (anima_id (test_client (Some test_anima_id)
                 (mock_api (json_response 200 ''null'' JNull))))
   \<and> \<not> truthy_str (anima_id (test_client None (mock_api (json_response 200 ''null'' JNull))))
   \<and> inject test_runtime (test_client None (mock_api (json_response 200 ''null'' JNull)))
        (Some (AnimaStr '''')) (Some '''') (Some '''') [] = (Inl anima_id_required, [])
   \<and> snd (inject test_runtime
            (test_client (Some test_anima_id) (mock_api (json_response 200 ''null'' JNull)))
            (Some (AnimaStr '''')) (Some '''') (Some '''') [])
       = [\<lparr>req_method = ''GET'',
            req_url = ''/animas/'' @ test_anima_id @ ''/memory-packs/latest'',
            req_params = [], req_json = None\<rparr>]"
proof -
  let ?r = "mock_api (json_response 200 ''null'' JNull)"
  have h1: "truthy_str (anima_id (test_client (Some test_anima_id) ?r))"
    by (simp add: test_client_def test_anima_id_def)
  have h2: "\<not> truthy_str (anima_id (test_client None ?r))"
    by (simp add: test_client_def)
  have a: "inject test_runtime (test_client None ?r)
              (Some (AnimaStr '''')) (Some '''') (Some '''') [] = (Inl anima_id_required, [])"
    using h2 inject_empty_string_is_absent [of test_runtime "test_client None ?r"
        "Some ''''" "Some ''''" "[]"]
    by blast
  have b: "snd (inject test_runtime (test_client (Some test_anima_id) ?r)
                 (Some (AnimaStr '''')) (Some '''') (Some '''') [])
           = [] @ [inject_request (the (anima_id (test_client (Some test_anima_id) ?r)))
                     (Some '''') (Some '''')]"
    using h1 inject_empty_string_is_absent [of test_runtime
        "test_client (Some test_anima_id) ?r" "Some ''''" "Some ''''" "[]"]
    by blast
  show ?thesis
    unfolding a b using h1 h2
    by (simp add: inject_request_def inject_params_def test_client_def)
qed

section \<open>Missing anima id\<close>

lemma extract_no_anima_id:
  "\<not> anima_truthy (extract_aid c a) \<Longrightarrow>
     extract_event rt c x a sent = (Inl anima_id_required, sent)"
  by (simp add: extract_event_def)

lemma extract_aid_default:
  "\<not> anima_truthy a \<Longrightarrow> anima_truthy (extract_aid c a) = truthy_str (anima_id c)"
  by (cases "anima_id c") (simp_all add: extract_aid_def)

text \<open>
  C6. With no anima id in the call (none, or an empty one) and none configured on the
  client, \<open>inject\<close> and \<open>extract\<close> raise the configuration error and leave the list of
  requests handed to the transport as it was: nothing is sent.
\<close>

theorem missing_anima_id_fails_locally:
  assumes "\<not> anima_truthy a" and "\<not> truthy_str (anima_id c)"
  shows "inject rt c a query preset sent = (Inl anima_id_required, sent)
         \<and> extract_event rt c x a sent = (Inl anima_id_required, sent)
         \<and> anima_id_required =
             ValueError ''anima_id required. Provide parameter or set default in client.''"
  using assms
  by (simp add: inject_no_anima_id extract_no_anima_id extract_aid_default inject_aid_def
      anima_id_required_def)

theorem missing_anima_id_fails_locally_witness:
  "\<not> anima_truthy None
   \<and> \<not> truthy_str (anima_id (test_client None (mock_api created)))
   \<and> inject test_runtime (test_client None (mock_api created))
        None None None [] = (Inl anima_id_required, [])
   \<and> extract_event test_runtime (test_client None (mock_api created))
        (hello (EventTypeEnum MESSAGE_IN) None) None [] = (Inl anima_id_required, [])"
proof -
  let ?c = "test_client None (mock_api created)"
  have h1: "\<not> anima_truthy None" by simp
  have h2: "\<not> truthy_str (anima_id ?c)" by (simp add: test_client_def)
  show ?thesis
    using h1 h2
      missing_anima_id_fails_locally [OF h1 h2, of test_runtime None None "[]"
        "hello (EventTypeEnum MESSAGE_IN) None"]
    by simp
qed

section \<open>extract\<close>

lemma map_of_opt_field:
  "map_of (opt_field k f v) k' = (if k' = k then map_option f v else None)"
  by (cases v) (simp_all add: opt_field_def)

lemma model_dump_importance_score:
  "map_of (model_dump d) ''importance_score'' = map_option JNum (ec_importance_score d)"
  by (simp add: model_dump_def map_of_opt_field map_add_def split: option.splits)

lemma model_dump_event_type:
  "map_of (model_dump d) ''event_type'' = Some (JStr (ec_event_type d))"
  by (simp add: model_dump_def map_of_opt_field map_add_def split: option.splits)

lemma extract_bad_uuid:
  "anima_truthy (extract_aid c a) \<Longrightarrow> uuid_of rt (anima_str (the (extract_aid c a))) = Inl msg \<Longrightarrow>
     extract_event rt c x a sent = (Inl (ValueError msg), sent)"
  by (simp add: extract_event_def)

lemma extract_invalid:
  "anima_truthy (extract_aid c a) \<Longrightarrow> uuid_of rt (anima_str (the (extract_aid c a))) = Inr u \<Longrightarrow>
   EventCreate_init (extract_data u x) = Inl e \<Longrightarrow>
     extract_event rt c x a sent = (Inl e, sent)"
  by (simp add: extract_event_def)

lemma extract_requests:
  "anima_truthy (extract_aid c a) \<Longrightarrow> uuid_of rt (anima_str (the (extract_aid c a))) = Inr u \<Longrightarrow>
   EventCreate_init (extract_data u x) = Inr d \<Longrightarrow>
     snd (extract_event rt c x a sent) = sent @ [extract_request d]"
  by (simp add: extract_event_def send_def split: sum.splits)

lemma EventCreate_init_out_of_range:
  "ec_importance_score d = Some s \<Longrightarrow> s < 0 \<or> 1 < s \<Longrightarrow>
     EventCreate_init d = Inl (PydanticValidationError ''importance_score'')"
  by (auto simp: EventCreate_init_def)

lemma EventCreate_init_in_range:
  "ec_importance_score d = Some s \<Longrightarrow> 0 \<le> s \<Longrightarrow> s \<le> 1 \<Longrightarrow> EventCreate_init d = Inr d"
  by (simp add: EventCreate_init_def)

lemma EventCreate_init_no_score:
  "ec_importance_score d = None \<Longrightarrow> EventCreate_init d = Inr d"
  by (simp add: EventCreate_init_def)

lemma extract_data_score [simp]:
  "ec_importance_score (extract_data u x) = importance_score x"
  by (simp add: extract_data_def)

lemma extract_data_event_type [simp]:
  "ec_event_type (extract_data u x) = event_type_str (event_type x)"
  by (simp add: extract_data_def)

text \<open>
  C7. An importance score outside [0, 1] makes \<open>extract\<close> raise before anything is sent:
  whatever the other arguments, the call ends in an error with the list of requests
  unchanged, and once the anima id resolves to a well-formed UUID the error is the
  validation error of \<open>importance_score\<close>. A score inside [0, 1] is sent, with that anima
  id, as the \<open>importance_score\<close> of the one request's JSON body, unchanged.
\<close>

theorem importance_score_range_checked_locally:
  assumes "importance_score x = Some s"
  shows "(s < 0 \<or> 1 < s \<longrightarrow>
            (\<exists>e. extract_event rt c x a sent = (Inl e, sent))
            \<and> (\<forall>u. anima_truthy (extract_aid c a)
                    \<and> uuid_of rt (anima_str (the (extract_aid c a))) = Inr u \<longrightarrow>
                   extract_event rt c x a sent =
                     (Inl (PydanticValidationError ''importance_score''), sent)))
         \<and> (\<forall>u. 0 \<le> s \<and> s \<le> 1 \<and> anima_truthy (extract_aid c a)
                 \<and> uuid_of rt (anima_str (the (extract_aid c a))) = Inr u \<longrightarrow>
               (\<exists>payload.
                  snd (extract_event rt c x a sent) =
                    sent @ [\<lparr>req_method = ''POST'', req_url = ''/events'', req_params = [],
                              req_json = Some payload\<rparr>]
                  \<and> map_of payload ''importance_score'' = Some (JNum s)))"
proof -
  have bad: "extract_event rt c x a sent =
               (Inl (PydanticValidationError ''importance_score''), sent)"
    if "s < 0 \<or> 1 < s" "anima_truthy (extract_aid c a)"
       "uuid_of rt (anima_str (the (extract_aid c a))) = Inr u" for u
    using that assms
    by (simp add: extract_invalid [OF _ _ EventCreate_init_out_of_range [where s = s]])
  have local: "\<exists>e. extract_event rt c x a sent = (Inl e, sent)" if "s < 0 \<or> 1 < s"
  proof (cases "anima_truthy (extract_aid c a)")
    case False
    then show ?thesis by (simp add: extract_no_anima_id)
  next
    case True
    show ?thesis
    proof (cases "uuid_of rt (anima_str (the (extract_aid c a)))")
      case (Inl msg)
      with True show ?thesis by (simp add: extract_bad_uuid)
    next
      case (Inr u)
      with True that show ?thesis by (simp add: bad)
    qed
  qed
  have good: "\<exists>payload.
                snd (extract_event rt c x a sent) =
                  sent @ [\<lparr>req_method = ''POST'', req_url = ''/events'', req_params = [],
                            req_json = Some payload\<rparr>]
                \<and> map_of payload ''importance_score'' = Some (JNum s)"
    if "0 \<le> s" "s \<le> 1" "anima_truthy (extract_aid c a)"
       "uuid_of rt (anima_str (the (extract_aid c a))) = Inr u" for u
  proof -
    have "EventCreate_init (extract_data u x) = Inr (extract_data u x)"
      using that assms by (simp add: EventCreate_init_in_range [where s = s])
    then have "snd (extract_event rt c x a sent) = sent @ [extract_request (extract_data u x)]"
      using that by (simp add: extract_requests)
    then show ?thesis
      using assms by (simp add: extract_request_def model_dump_importance_score)
  qed
  from bad local good show ?thesis by blast
qed

theorem importance_score_range_checked_locally_witness:
  "importance_score (hello (EventTypeEnum MESSAGE_IN) (Some 1.5)) = Some 1.5
   \<and> importance_score (hello (EventTypeEnum MESSAGE_IN) (Some 0.8)) = Some 0.8
   \<and> ((1.5::real) < 0 \<or> 1 < (1.5::real)) \<and> (0::real) \<le> 0.8 \<and> (0.8::real) \<le> 1
   \<and> extract_event test_runtime
        (test_client (Some test_anima_id) (mock_api created))
        (hello (EventTypeEnum MESSAGE_IN) (Some 1.5)) None []
      = (Inl (PydanticValidationError ''importance_score''), [])
   \<and> (\<exists>payload.
        snd (extract_event test_runtime
               (test_client (Some test_anima_id) (mock_api created))
               (hello (EventTypeEnum MESSAGE_IN) (Some 0.8)) None [])
          = [\<lparr>req_method = ''POST'', req_url = ''/events'', req_params = [],
               req_json = Some payload\<rparr>]
        \<and> map_of payload ''importance_score'' = Some (JNum 0.8))"
proof -
  let ?c = "test_client (Some test_anima_id) (mock_api created)"
  have aid: "extract_aid ?c None = Some (AnimaStr test_anima_id)"
    by (simp add: extract_aid_def test_client_def)
  have h: "anima_truthy (extract_aid ?c None)"
    "uuid_of test_runtime (anima_str (the (extract_aid ?c None))) = Inr (UUID test_anima_id)"
    unfolding aid by (simp_all add: test_runtime_def test_anima_id_def)
  have s1: "importance_score (hello (EventTypeEnum MESSAGE_IN) (Some 1.5)) = Some 1.5"
    and s2: "importance_score (hello (EventTypeEnum MESSAGE_IN) (Some 0.8)) = Some 0.8"
    by (simp_all add: hello_def)
  have r: "((1.5::real) < 0 \<or> 1 < (1.5::real))" "(0::real) \<le> 0.8" "(0.8::real) \<le> 1"
    by simp_all
  have a: "extract_event test_runtime ?c (hello (EventTypeEnum MESSAGE_IN) (Some 1.5)) None []
             = (Inl (PydanticValidationError ''importance_score''), [])"
    using importance_score_range_checked_locally [OF s1, of test_runtime ?c None "[]"] r h
    by blast
  have b: "\<exists>payload.
        snd (extract_event test_runtime ?c (hello (EventTypeEnum MESSAGE_IN) (Some 0.8)) None [])
          = [] @ [\<lparr>req_method = ''POST'', req_url = ''/events'', req_params = [],
               req_json = Some payload\<rparr>]
        \<and> map_of payload ''importance_score'' = Some (JNum 0.8)"
    using importance_score_range_checked_locally [OF s2, of test_runtime ?c None "[]"] r h
    by blast
  from a b s1 s2 r show ?thesis by simp
qed

section \<open>Event types\<close>

lemma extract_event_type_sent:
  assumes "anima_truthy (extract_aid c a)"
    and "uuid_of rt (anima_str (the (extract_aid c a))) = Inr u"
    and "importance_score x = None"
  shows "snd (extract_event rt c x a sent) = sent @ [extract_request (extract_data u x)]"
    and "map_of (model_dump (extract_data u x)) ''event_type'' =
           Some (JStr (event_type_str (event_type x)))"
  using assms
  by (simp_all add: extract_requests EventCreate_init_no_score model_dump_event_type)

text \<open>
  C1. \<open>extract\<close> turns an \<open>EventType\<close> member into its dotted value and passes a string on
  as it is: called with \<^verbatim>\<open>EventType.TOOL_CALL\<close> it sends \<^verbatim>\<open>"tool.call"\<close>, called with
  \<^verbatim>\<open>"TOOL_CALL"\<close> or \<^verbatim>\<open>"Tool_Call"\<close> it sends that text as the \<open>event_type\<close> of the payload.
\<close>

theorem extract_sends_string_event_type_verbatim:
  "snd (extract_event test_runtime
          (test_client (Some test_anima_id) (mock_api created))
          (hello (EventTypeEnum TOOL_CALL) None) None [])
     = [\<lparr>req_method = ''POST'', req_url = ''/events'', req_params = [],
          req_json = Some [(''anima_id'', JStr test_anima_id),
                           (''event_type'', JStr ''tool.call''),
                           (''content'', JStr ''Hello!''),
                           (''meta'', JObj [])]\<rparr>]
   \<and> snd (extract_event test_runtime
          (test_client (Some test_anima_id) (mock_api created))
          (hello (EventTypeStr ''TOOL_CALL'') None) None [])
     = [\<lparr>req_method = ''POST'', req_url = ''/events'', req_params = [],
          req_json = Some [(''anima_id'', JStr test_anima_id),
                           (''event_type'', JStr ''TOOL_CALL''),
                           (''content'', JStr ''Hello!''),
                           (''meta'', JObj [])]\<rparr>]
   \<and> snd (extract_event test_runtime
          (test_client (Some test_anima_id) (mock_api created))
          (hello (EventTypeStr ''Tool_Call'') None) None [])
     = [\<lparr>req_method = ''POST'', req_url = ''/events'', req_params = [],
          req_json = Some [(''anima_id'', JStr test_anima_id),
                           (''event_type'', JStr ''Tool_Call''),
                           (''content'', JStr ''Hello!''),
                           (''meta'', JObj [])]\<rparr>]"
  by (simp add: extract_event_def extract_aid_def test_client_def test_runtime_def
      test_anima_id_def EventCreate_init_def extract_data_def hello_def send_def mock_api_def
      extract_request_def model_dump_def opt_field_def handle_response_def is_success_def
      json_response_def created_def mock_event_json_def)

text \<open>
  C2. \<open>extract\<close> does not reject a string that names no event type: called with
  \<^verbatim>\<open>"TOOL_CALL_EXTRA"\<close>, or with the empty string, it raises nothing, posts the event with
  that text as \<open>event_type\<close>, and returns the event the server answers with.
\<close>

theorem extract_posts_unknown_event_type:
  "extract_event test_runtime
      (test_client (Some test_anima_id) (mock_api created))
      (hello (EventTypeStr ''TOOL_CALL_EXTRA'') None) None []
     = (Inr mock_event,
        [\<lparr>req_method = ''POST'', req_url = ''/events'', req_params = [],
          req_json = Some [(''anima_id'', JStr test_anima_id),
                           (''event_type'', JStr ''TOOL_CALL_EXTRA''),
                           (''content'', JStr ''Hello!''),
                           (''meta'', JObj [])]\<rparr>])
   \<and> extract_event test_runtime
      (test_client (Some test_anima_id) (mock_api created))
      (hello (EventTypeStr '''') None) None []
     = (Inr mock_event,
        [\<lparr>req_method = ''POST'', req_url = ''/events'', req_params = [],
          req_json = Some [(''anima_id'', JStr test_anima_id),
                           (''event_type'', JStr ''''),
                           (''content'', JStr ''Hello!''),
                           (''meta'', JObj [])]\<rparr>])"
  by (simp add: extract_event_def extract_aid_def test_client_def test_runtime_def
      test_anima_id_def EventCreate_init_def extract_data_def hello_def send_def mock_api_def
      extract_request_def model_dump_def opt_field_def handle_response_def is_success_def
      json_response_def created_def mock_event_json_def)

text \<open>
  C3. Constructing an \<open>EventCreate\<close> runs no check on \<open>event_type\<close>: with \<^verbatim>\<open>"TOOL_CALL"\<close>
  or \<^verbatim>\<open>"foobar"\<close> the construction succeeds and the object holds that text.
\<close>

theorem EventCreate_accepts_any_event_type:
  "EventCreate_init (make_EventCreate ''TOOL_CALL'') = Inr (make_EventCreate ''TOOL_CALL'')
   \<and> ec_event_type (make_EventCreate ''TOOL_CALL'') = ''TOOL_CALL''
   \<and> EventCreate_init (make_EventCreate ''foobar'') = Inr (make_EventCreate ''foobar'')
   \<and> ec_event_type (make_EventCreate ''foobar'') = ''foobar''"
  by (simp add: EventCreate_init_def make_EventCreate_def)

section \<open>The views of a memory pack\<close>










end
